theory Spec2Isabelle
  imports Complex_Main "HOL-Library.AList"
begin

section \<open>Python values and exceptions\<close>

text \<open>
  The enrichment code builds and updates Python dictionaries whose values are numbers,
  strings and whatever \<^verbatim>\<open>json.loads\<close> returned.  A dictionary is an association list:
  insertion order is kept and a store to an existing key replaces the value in place.
\<close>

datatype pyval =
    PyNone
  | PyBool bool
  | PyInt int
  | PyFloat real
  | PyStr string
  | PyList "pyval list"
  | PyDict "(string \<times> pyval) list"

text \<open>
  An exception is its class and its message (\<^verbatim>\<open>str(e)\<close>).  Every class listed here is a
  subclass of \<^verbatim>\<open>Exception\<close>, so \<^verbatim>\<open>except Exception\<close> catches each of them.
\<close>

datatype exc_class =
    JSONDecodeError
  | TypeError
  | AttributeError
  | ValueError
  | ZeroDivisionError
  | TimeoutError
  | ConnectionError
  | RuntimeError

datatype py_exception = PyExc exc_class string

fun exc_str :: "py_exception \<Rightarrow> string" where
  "exc_str (PyExc c msg) = msg"

fun is_dict :: "pyval \<Rightarrow> bool" where
  "is_dict (PyDict d) = True"
| "is_dict v = False"

fun type_name :: "pyval \<Rightarrow> string" where
  "type_name PyNone = ''NoneType''"
| "type_name (PyBool b) = ''bool''"
| "type_name (PyInt i) = ''int''"
| "type_name (PyFloat x) = ''float''"
| "type_name (PyStr s) = ''str''"
| "type_name (PyList xs) = ''list''"
| "type_name (PyDict d) = ''dict''"

text \<open>\<^verbatim>\<open>obj[key] = value\<close> with a string key: only a dictionary accepts it.\<close>

fun setitem :: "pyval \<Rightarrow> string \<Rightarrow> pyval \<Rightarrow> py_exception + pyval" where
  "setitem (PyDict d) k v = Inr (PyDict (AList.update k v d))"
| "setitem (PyList xs) k v =
     Inl (PyExc TypeError ''list indices must be integers or slices, not str'')"
| "setitem obj k v =
     Inl (PyExc TypeError
       ([CHR 0x27] @ type_name obj @ [CHR 0x27] @ '' object does not support item assignment''))"

text \<open>\<^verbatim>\<open>obj.get(key, default)\<close>: a method of dictionaries only.\<close>

fun get_method :: "pyval \<Rightarrow> string \<Rightarrow> pyval \<Rightarrow> py_exception + pyval" where
  "get_method (PyDict d) k dflt = Inr (case map_of d k of Some v \<Rightarrow> v | None \<Rightarrow> dflt)"
| "get_method obj k dflt =
     Inl (PyExc AttributeError
       ([CHR 0x27] @ type_name obj @ [CHR 0x27] @ '' object has no attribute ''
         @ [CHR 0x27] @ ''get'' @ [CHR 0x27]))"

text \<open>Reading a key of an emitted record; \<open>None\<close> when the value is no dictionary or has no such key.\<close>

fun field :: "pyval \<Rightarrow> string \<Rightarrow> pyval option" where
  "field (PyDict d) k = map_of d k"
| "field v k = None"

text \<open>Sequencing of computations that may raise.\<close>

fun bind_exc :: "py_exception + 'a \<Rightarrow> ('a \<Rightarrow> py_exception + 'b) \<Rightarrow> py_exception + 'b" where
  "bind_exc (Inl e) f = Inl e"
| "bind_exc (Inr v) f = f v"

text \<open>Python's true division of floats.\<close>

definition py_truediv :: "real \<Rightarrow> real \<Rightarrow> py_exception + real" where
  "py_truediv a b =
     (if b = 0 then Inl (PyExc ZeroDivisionError ''float division by zero'') else Inr (a / b))"

text \<open>\<^verbatim>\<open>str(n)\<close> of an integer.\<close>

definition digit_char :: "nat \<Rightarrow> char" where
  "digit_char d = ''0123456789'' ! d"

fun str_nat :: "nat \<Rightarrow> string" where
  "str_nat n =
     (if n < 10 then [digit_char n]
      else str_nat (n div 10) @ [digit_char (n mod 10)])"

declare str_nat.simps [simp del]

definition str_int :: "int \<Rightarrow> string" where
  "str_int i = (if i < 0 then CHR ''-'' # str_nat (nat (- i)) else str_nat (nat i))"

section \<open>Classifier rules (\<^verbatim>\<open>TaxiDataProcessor\<close>, data_processor.py)\<close>

text \<open>The five rules, on real numbers for Python's floats, with the branches in source order.\<close>

definition classify_area :: "real \<Rightarrow> string" where
  "classify_area lat =
     (if lat > 51.12 then ''North''
      else if lat < 51.08 then ''South''
      else ''Center'')"

definition classify_activity :: "real \<Rightarrow> string" where
  "classify_activity speed =
     (if speed > 10 then ''High''
      else if speed > 3 then ''Medium''
      else ''Low'')"

definition classify_trip_duration :: "real \<Rightarrow> string" where
  "classify_trip_duration duration =
     (if duration < 10 then ''Short''
      else if duration < 30 then ''Medium''
      else ''Long'')"

definition classify_price :: "real \<Rightarrow> real \<Rightarrow> string" where
  "classify_price fare distance =
     (if distance > 0 then
        (let price_per_km = fare / distance in
         if price_per_km < 2 then ''Low''
         else if price_per_km < 5 then ''Medium''
         else if price_per_km < 10 then ''High''
         else ''Premium'')
      else ''Unknown'')"

definition calculate_efficiency :: "real \<Rightarrow> real \<Rightarrow> real" where
  "calculate_efficiency speed duration =
     (let speed_score = min (speed / 60) 1.0;
          duration_score = max 0 (1 - (duration - 15) / 30)
      in (speed_score + duration_score) / 2)"

section \<open>Oracle and response parser\<close>

text \<open>
  The oracle is the language-model call behind \<^verbatim>\<open>LLMChain.run\<close>: given the row (its fields
  and its index label make up the prompt and the context string) it returns the response
  text or raises.  \<^verbatim>\<open>json.loads\<close> is the library's decoder: it returns the decoded value
  or raises, \<^verbatim>\<open>JSONDecodeError\<close> for a text that is not JSON.  \<open>now\<close> stands for the
  reading of the clock, \<^verbatim>\<open>pd.Timestamp.now().isoformat()\<close>.
\<close>

type_synonym json_loads = "string \<Rightarrow> py_exception + pyval"

fun is_JSONDecodeError :: "py_exception \<Rightarrow> bool" where
  "is_JSONDecodeError (PyExc c msg) = (c = JSONDecodeError)"

text \<open>\<^verbatim>\<open>DataInsightsParser.parse\<close>: only \<^verbatim>\<open>JSONDecodeError\<close> is caught.\<close>

definition parse :: "json_loads \<Rightarrow> string \<Rightarrow> string \<Rightarrow> py_exception + pyval" where
  "parse loads now text =
     (case loads text of
        Inr v \<Rightarrow> Inr v
      | Inl e \<Rightarrow>
          if is_JSONDecodeError e then
            Inr (PyDict [(''insights'', PyStr text),
                         (''confidence'', PyFloat 0.7),
                         (''processed_at'', PyStr now)])
          else Inl e)"

section \<open>Enrichment engine\<close>

text \<open>
  A row of the GPS frame as \<^verbatim>\<open>iterrows\<close> yields it, with its index label \<open>idx\<close>.  The
  columns of the frame are all numeric, so the row is a float series: the entry of the id
  column is a float as well.  Whether the frame has the id column at all is a property of
  the frame, \<open>has_id\<close>; \<open>randomized_id\<close> is read only when it has.
\<close>

record gps_row =
  idx :: int
  randomized_id :: real
  lat :: real
  lng :: real
  alt :: real
  spd :: real
  azm :: real

record taxi_row =
  trip_duration_sec :: int
  trip_duration_min :: real
  distance_traveled_Km :: real
  KPH :: real
  wait_time_cost :: real
  distance_cost :: real
  total_fare_new :: real
  num_of_passengers :: int
  surge_applied :: bool

type_synonym gps_oracle = "gps_row \<Rightarrow> py_exception + string"
type_synonym taxi_oracle = "taxi_row \<Rightarrow> py_exception + string"

text \<open>
  \<^verbatim>\<open>str(row.get('randomized_id', idx))\<close>: the float entry when the frame has the column,
  the integer index label otherwise.  How Python prints a float (\<^verbatim>\<open>'7.0'\<close>,
  \<^verbatim>\<open>'7.63705804933605e+18'\<close>) is a matter of its binary representation; the printing
  function is the parameter \<open>str_float\<close>.
\<close>

type_synonym float_str = "real \<Rightarrow> string"

definition original_id :: "float_str \<Rightarrow> bool \<Rightarrow> gps_row \<Rightarrow> string" where
  "original_id str_float has_id row =
     (if has_id then str_float (randomized_id row) else str_int (idx row))"

text \<open>\<^verbatim>\<open>gps_chain.run(...)\<close>: the oracle's text goes through the chain's output parser.\<close>

definition gps_chain_run :: "gps_oracle \<Rightarrow> json_loads \<Rightarrow> string \<Rightarrow> gps_row \<Rightarrow> py_exception + pyval" where
  "gps_chain_run llm loads now row = bind_exc (llm row) (parse loads now)"

text \<open>The body of the \<^verbatim>\<open>try\<close> block of \<^verbatim>\<open>process_gps_batch\<close>.\<close>

definition gps_try ::
  "gps_oracle \<Rightarrow> json_loads \<Rightarrow> string \<Rightarrow> float_str \<Rightarrow> bool \<Rightarrow> gps_row
     \<Rightarrow> py_exception + pyval" where
  "gps_try llm loads now str_float has_id row =
     bind_exc (gps_chain_run llm loads now row) (\<lambda>result.
     bind_exc (setitem result ''original_id'' (PyStr (original_id str_float has_id row))) (\<lambda>result.
     bind_exc (setitem result ''lat'' (PyFloat (lat row))) (\<lambda>result.
     bind_exc (setitem result ''lng'' (PyFloat (lng row))) (\<lambda>result.
     bind_exc (setitem result ''alt'' (PyFloat (alt row))) (\<lambda>result.
     bind_exc (setitem result ''spd'' (PyFloat (spd row))) (\<lambda>result.
     setitem result ''azm'' (PyFloat (azm row))))))))"

text \<open>The \<^verbatim>\<open>except Exception as e\<close> block of \<^verbatim>\<open>process_gps_batch\<close>.\<close>

definition gps_except :: "float_str \<Rightarrow> bool \<Rightarrow> gps_row \<Rightarrow> py_exception \<Rightarrow> pyval" where
  "gps_except str_float has_id row e =
     PyDict [(''original_id'', PyStr (original_id str_float has_id row)),
             (''lat'', PyFloat (lat row)),
             (''lng'', PyFloat (lng row)),
             (''alt'', PyFloat (alt row)),
             (''spd'', PyFloat (spd row)),
             (''azm'', PyFloat (azm row)),
             (''area_classification'', PyStr (classify_area (lat row))),
             (''activity_level'', PyStr (classify_activity (spd row))),
             (''road_type'', PyStr ''Unknown''),
             (''insights'', PyStr (''Error processing: '' @ exc_str e))]"

definition gps_step ::
  "gps_oracle \<Rightarrow> json_loads \<Rightarrow> string \<Rightarrow> float_str \<Rightarrow> bool \<Rightarrow> gps_row \<Rightarrow> pyval" where
  "gps_step llm loads now str_float has_id row =
     (case gps_try llm loads now str_float has_id row of
        Inr result \<Rightarrow> result
      | Inl e \<Rightarrow> gps_except str_float has_id row e)"

text \<open>The loop of \<^verbatim>\<open>process_gps_batch\<close>: one \<^verbatim>\<open>results.append\<close> per row.\<close>

fun gps_loop ::
  "gps_oracle \<Rightarrow> json_loads \<Rightarrow> string \<Rightarrow> float_str \<Rightarrow> bool \<Rightarrow> gps_row list \<Rightarrow> pyval list
     \<Rightarrow> pyval list" where
  "gps_loop llm loads now str_float has_id [] results = results"
| "gps_loop llm loads now str_float has_id (row # rest) results =
     gps_loop llm loads now str_float has_id rest (results @ [gps_step llm loads now str_float has_id row])"

definition process_gps_batch ::
  "gps_oracle \<Rightarrow> json_loads \<Rightarrow> string \<Rightarrow> float_str \<Rightarrow> bool \<Rightarrow> gps_row list \<Rightarrow> pyval list" where
  "process_gps_batch llm loads now str_float has_id gps_data = gps_loop llm loads now str_float has_id gps_data []"

definition taxi_chain_run :: "taxi_oracle \<Rightarrow> json_loads \<Rightarrow> string \<Rightarrow> taxi_row \<Rightarrow> py_exception + pyval" where
  "taxi_chain_run llm loads now row = bind_exc (llm row) (parse loads now)"

text \<open>The body of the \<^verbatim>\<open>try\<close> block of \<^verbatim>\<open>process_taxi_batch\<close>.\<close>

definition taxi_try :: "taxi_oracle \<Rightarrow> json_loads \<Rightarrow> string \<Rightarrow> taxi_row \<Rightarrow> py_exception + pyval" where
  "taxi_try llm loads now row =
     bind_exc (taxi_chain_run llm loads now row) (\<lambda>result.
     bind_exc (setitem result ''trip_duration_sec'' (PyInt (trip_duration_sec row))) (\<lambda>result.
     bind_exc (setitem result ''trip_duration_min'' (PyFloat (trip_duration_min row))) (\<lambda>result.
     bind_exc (setitem result ''distance_traveled_km'' (PyFloat (distance_traveled_Km row))) (\<lambda>result.
     bind_exc (setitem result ''kph'' (PyFloat (KPH row))) (\<lambda>result.
     bind_exc (setitem result ''wait_time_cost'' (PyFloat (wait_time_cost row))) (\<lambda>result.
     bind_exc (setitem result ''distance_cost'' (PyFloat (distance_cost row))) (\<lambda>result.
     bind_exc (setitem result ''total_fare_new'' (PyFloat (total_fare_new row))) (\<lambda>result.
     bind_exc (setitem result ''num_of_passengers'' (PyInt (num_of_passengers row))) (\<lambda>result.
     setitem result ''surge_applied'' (PyBool (surge_applied row)))))))))))"

text \<open>The \<^verbatim>\<open>except Exception as e\<close> block of \<^verbatim>\<open>process_taxi_batch\<close>.\<close>

definition taxi_except :: "taxi_row \<Rightarrow> py_exception \<Rightarrow> pyval" where
  "taxi_except row e =
     PyDict [(''trip_duration_sec'', PyInt (trip_duration_sec row)),
             (''trip_duration_min'', PyFloat (trip_duration_min row)),
             (''distance_traveled_km'', PyFloat (distance_traveled_Km row)),
             (''kph'', PyFloat (KPH row)),
             (''wait_time_cost'', PyFloat (wait_time_cost row)),
             (''distance_cost'', PyFloat (distance_cost row)),
             (''total_fare_new'', PyFloat (total_fare_new row)),
             (''num_of_passengers'', PyInt (num_of_passengers row)),
             (''surge_applied'', PyBool (surge_applied row)),
             (''trip_category'', PyStr (classify_trip_duration (trip_duration_min row))),
             (''price_category'',
                PyStr (classify_price (total_fare_new row) (distance_traveled_Km row))),
             (''efficiency_score'',
                PyFloat (calculate_efficiency (KPH row) (trip_duration_min row))),
             (''insights'', PyStr (''Error processing: '' @ exc_str e))]"

definition taxi_step :: "taxi_oracle \<Rightarrow> json_loads \<Rightarrow> string \<Rightarrow> taxi_row \<Rightarrow> pyval" where
  "taxi_step llm loads now row =
     (case taxi_try llm loads now row of
        Inr result \<Rightarrow> result
      | Inl e \<Rightarrow> taxi_except row e)"

fun taxi_loop :: "taxi_oracle \<Rightarrow> json_loads \<Rightarrow> string \<Rightarrow> taxi_row list \<Rightarrow> pyval list \<Rightarrow> pyval list" where
  "taxi_loop llm loads now [] results = results"
| "taxi_loop llm loads now (row # rest) results =
     taxi_loop llm loads now rest (results @ [taxi_step llm loads now row])"

definition process_taxi_batch :: "taxi_oracle \<Rightarrow> json_loads \<Rightarrow> string \<Rightarrow> taxi_row list \<Rightarrow> pyval list" where
  "process_taxi_batch llm loads now taxi_data = taxi_loop llm loads now taxi_data []"

section \<open>Batch driver (\<^verbatim>\<open>process_all_data\<close>)\<close>

definition BATCH_SIZE :: nat where
  "BATCH_SIZE = 1000"

text \<open>
  The loop \<^verbatim>\<open>for i in range(0, len(df), BATCH_SIZE)\<close> with the loop variable \<open>i\<close> explicit.
  The state is the result list, the batches handed to the batch processor so far, and
  the progress messages logged so far, each as the pair (current batch, total batches)
  that the message prints.  \<^verbatim>\<open>df.iloc[i:i+BATCH_SIZE]\<close> is \<open>take bs (drop i df)\<close>.
\<close>

function batch_loop ::
  "('a list \<Rightarrow> pyval list) \<Rightarrow> nat \<Rightarrow> 'a list \<Rightarrow> nat
     \<Rightarrow> pyval list \<times> 'a list list \<times> (nat \<times> nat) list
     \<Rightarrow> pyval list \<times> 'a list list \<times> (nat \<times> nat) list" where
  "batch_loop process bs df i (results, batches, logged) =
     (if 0 < bs \<and> i < length df then
        batch_loop process bs df (i + bs)
          (results @ process (take bs (drop i df)),
           batches @ [take bs (drop i df)],
           logged @ [(i div bs + 1, (length df - 1) div bs + 1)])
      else (results, batches, logged))"
  by pat_completeness auto
termination
  by (relation "measure (\<lambda>(process, bs, df, i, st). length df - i)") auto

declare batch_loop.simps [simp del]

text \<open>
  The number of batches of \<open>n\<close> records, as the progress message computes it:
  \<^verbatim>\<open>(len(df)-1)//BATCH_SIZE + 1\<close>, and none for an empty frame (the loop body never runs).
\<close>

definition batch_count :: "nat \<Rightarrow> nat \<Rightarrow> nat" where
  "batch_count bs n = (if n = 0 then 0 else (n - 1) div bs + 1)"

text \<open>\<^verbatim>\<open>range\<close> refuses a zero step.\<close>

definition run_batches ::
  "('a list \<Rightarrow> pyval list) \<Rightarrow> nat \<Rightarrow> 'a list
     \<Rightarrow> py_exception + (pyval list \<times> 'a list list \<times> (nat \<times> nat) list)" where
  "run_batches process bs df =
     (if bs = 0 then Inl (PyExc ValueError ''range() arg 3 must not be zero'')
      else Inr (batch_loop process bs df 0 ([], [], [])))"

text \<open>
  \<^verbatim>\<open>process_all_data\<close> on the two frames read from the files: the GPS loop, then the taxi
  loop.  Besides the two result lists it returns the progress messages of both loops.
\<close>

definition process_all_data ::
  "gps_oracle \<Rightarrow> taxi_oracle \<Rightarrow> json_loads \<Rightarrow> string \<Rightarrow> float_str \<Rightarrow> bool \<Rightarrow> nat
     \<Rightarrow> gps_row list \<Rightarrow> taxi_row list
     \<Rightarrow> py_exception + ((pyval list \<times> pyval list) \<times> (nat \<times> nat) list \<times> (nat \<times> nat) list)" where
  "process_all_data llm_gps llm_taxi loads now str_float has_id bs gps_df taxi_df =
     bind_exc (run_batches (process_gps_batch llm_gps loads now str_float has_id) bs gps_df)
       (\<lambda>(gps_results, gps_batches, gps_logged).
     bind_exc (run_batches (process_taxi_batch llm_taxi loads now) bs taxi_df)
       (\<lambda>(taxi_results, taxi_batches, taxi_logged).
     Inr ((gps_results, taxi_results), gps_logged, taxi_logged)))"

section \<open>Aggregator (\<^verbatim>\<open>DatabaseService\<close>, database_service.py)\<close>

text \<open>
  The rows of the two tables, with the numeric columns of the enriched records; the
  label and insight columns are not read by the aggregator.  Every column is nullable, as
  the table classes declare them: \<open>None\<close> is SQL's NULL, which \<^verbatim>\<open>save_gps_data\<close> and
  \<^verbatim>\<open>save_taxi_data\<close> store for a key that the saved dictionary lacks.  The queries of one
  run see the same tables.
\<close>

record ProcessedGPSData =
  g_lat :: "real option"
  g_lng :: "real option"
  g_alt :: "real option"
  g_spd :: "real option"
  g_azm :: "real option"

record ProcessedTaxiData =
  t_trip_duration_min :: "real option"
  t_distance_traveled_km :: "real option"
  t_kph :: "real option"
  t_total_fare_new :: "real option"
  t_surge_applied :: "bool option"

record database =
  gps_table :: "ProcessedGPSData list"
  taxi_table :: "ProcessedTaxiData list"

text \<open>The filter \<^verbatim>\<open>spd > 0\<close> of a query: a comparison with NULL selects nothing.\<close>

definition sql_gt_zero :: "real option \<Rightarrow> bool" where
  "sql_gt_zero v = (case v of Some x \<Rightarrow> x > 0 | None \<Rightarrow> False)"

text \<open>
  Python's \<^verbatim>\<open>sum\<close> of a column read back from the table: it starts from the integer 0 and
  adds the entries from the left; adding \<^verbatim>\<open>None\<close> raises \<^verbatim>\<open>TypeError\<close>, whose message names
  the type of the running total (\<^verbatim>\<open>int\<close> before the first entry, \<^verbatim>\<open>float\<close> after it).
\<close>

fun sum_from :: "string \<Rightarrow> real \<Rightarrow> real option list \<Rightarrow> py_exception + real" where
  "sum_from acc_type acc [] = Inr acc"
| "sum_from acc_type acc (None # rest) =
     Inl (PyExc TypeError
       (''unsupported operand type(s) for +: '' @ [CHR 0x27] @ acc_type @ [CHR 0x27]
          @ '' and '' @ [CHR 0x27] @ ''NoneType'' @ [CHR 0x27]))"
| "sum_from acc_type acc (Some x # rest) = sum_from ''float'' (acc + x) rest"

definition py_sum :: "real option list \<Rightarrow> py_exception + real" where
  "py_sum rows = sum_from ''int'' 0 rows"

text \<open>\<^verbatim>\<open>sum([r[0] for r in rows]) / len(rows) if rows else 0\<close>\<close>

definition mean_or_zero :: "real option list \<Rightarrow> py_exception + real" where
  "mean_or_zero rows =
     (if rows \<noteq> []
      then bind_exc (py_sum rows) (\<lambda>acc. py_truediv acc (real (length rows)))
      else Inr 0)"

text \<open>
  \<^verbatim>\<open>calculate_aggregate_metrics\<close>.  Each \<^verbatim>\<open>/\<close> of the source is \<open>py_truediv\<close>, under the
  guard the source puts before it.  The counts are integers; every other value is written
  as a float, also where Python yields the integer 0 of an \<^verbatim>\<open>else 0\<close>.
\<close>

definition calculate_aggregate_metrics :: "database \<Rightarrow> py_exception + (string \<times> pyval) list" where
  "calculate_aggregate_metrics db =
     (let gps_count = length (gps_table db) in
      bind_exc (mean_or_zero (map g_spd (filter (\<lambda>r. sql_gt_zero (g_spd r)) (gps_table db))))
        (\<lambda>avg_speed.
      let taxi_count = length (taxi_table db) in
      bind_exc (mean_or_zero (map t_total_fare_new (taxi_table db))) (\<lambda>avg_fare.
      bind_exc (mean_or_zero (map t_trip_duration_min (taxi_table db))) (\<lambda>avg_duration.
      bind_exc (mean_or_zero (map t_distance_traveled_km (taxi_table db))) (\<lambda>avg_distance.
      let surge_trips =
            length (filter (\<lambda>r. t_surge_applied r = Some True) (taxi_table db)) in
      bind_exc (if taxi_count > 0
                then bind_exc (py_truediv (real surge_trips) (real taxi_count))
                       (\<lambda>q. Inr (q * 100))
                else Inr 0) (\<lambda>surge_percentage.
      bind_exc (if avg_distance > 0
                then bind_exc (py_truediv avg_fare avg_distance) (\<lambda>q. Inr (q * 541))
                else Inr 0) (\<lambda>price_per_km.
      Inr [(''gps_points_count'', PyInt (int gps_count)),
           (''avg_speed_mps'', PyFloat avg_speed),
           (''avg_speed_kmh'', PyFloat (avg_speed * 3.6)),
           (''taxi_trips_count'', PyInt (int taxi_count)),
           (''avg_fare_usd'', PyFloat avg_fare),
           (''avg_fare_tenge'', PyFloat (avg_fare * 541)),
           (''avg_trip_duration_min'', PyFloat avg_duration),
           (''avg_distance_km'', PyFloat avg_distance),
           (''surge_percentage'', PyFloat surge_percentage),
           (''price_per_km_tenge'', PyFloat price_per_km)])))))))"

text \<open>
  The corpora in which every trip has its fare, its duration and its distance stored: the
  three columns that the aggregator sums without a filter.
\<close>

definition no_null_sums :: "database \<Rightarrow> bool" where
  "no_null_sums db =
     list_all (\<lambda>r. t_total_fare_new r \<noteq> None \<and> t_trip_duration_min r \<noteq> None \<and>
                    t_distance_traveled_km r \<noteq> None) (taxi_table db)"

text \<open>A row of the metrics table, as \<^verbatim>\<open>save_analytics_metrics\<close> builds it.\<close>

record AnalyticsMetrics =
  metric_name :: string
  metric_value :: pyval
  metric_type :: pyval
  description :: pyval
  calculated_at :: string

text \<open>The body of the \<^verbatim>\<open>try\<close> block of \<^verbatim>\<open>save_analytics_metrics\<close>.\<close>

definition metric_record :: "string \<Rightarrow> string \<Rightarrow> pyval \<Rightarrow> py_exception + AnalyticsMetrics" where
  "metric_record utcnow name metric_data =
     bind_exc (get_method metric_data ''value'' PyNone) (\<lambda>v.
     bind_exc (get_method metric_data ''type'' (PyStr ''CALCULATED'')) (\<lambda>t.
     bind_exc (get_method metric_data ''description'' (PyStr [])) (\<lambda>d.
     Inr \<lparr>metric_name = name, metric_value = v, metric_type = t, description = d,
          calculated_at = utcnow\<rparr>)))"

text \<open>
  The loop over \<^verbatim>\<open>metrics.items()\<close>; the state is \<^verbatim>\<open>saved_count\<close> and the records added to
  the session.  A metric whose record cannot be built is logged and skipped.
\<close>

fun save_loop ::
  "string \<Rightarrow> (string \<times> pyval) list \<Rightarrow> nat \<times> AnalyticsMetrics list \<Rightarrow> nat \<times> AnalyticsMetrics list" where
  "save_loop utcnow [] st = st"
| "save_loop utcnow ((name, metric_data) # rest) (saved_count, added) =
     (case metric_record utcnow name metric_data of
        Inr r \<Rightarrow> save_loop utcnow rest (saved_count + 1, added @ [r])
      | Inl e \<Rightarrow> save_loop utcnow rest (saved_count, added))"

definition save_analytics_metrics ::
  "string \<Rightarrow> (string \<times> pyval) list \<Rightarrow> nat \<times> AnalyticsMetrics list" where
  "save_analytics_metrics utcnow metrics = save_loop utcnow metrics (0, [])"

section \<open>Properties of the classifier rules\<close>

text \<open>
  C8: for every latitude, \<open>classify_area\<close> sends the latitudes below 51.08 to South, those
  from 51.08 to 51.12 (both ends included) to Center and those above 51.12 to North; the two
  boundary values themselves are Center.
\<close>

theorem classify_area_partition:
  "(x < 51.08 \<longrightarrow> classify_area x = ''South'') \<and>
   (51.08 \<le> x \<and> x \<le> 51.12 \<longrightarrow> classify_area x = ''Center'') \<and>
   (51.12 < x \<longrightarrow> classify_area x = ''North'') \<and>
   classify_area 51.08 = ''Center'' \<and> classify_area 51.12 = ''Center''"
  by (simp add: classify_area_def)

theorem classify_area_partition_witness:
  "(51::real) < 51.08 \<and> classify_area 51 = ''South'' \<and>
   (51.08::real) \<le> 51.1 \<and> (51.1::real) \<le> 51.12 \<and> classify_area 51.1 = ''Center'' \<and>
   (51.12::real) < 52 \<and> classify_area 52 = ''North''"
  using classify_area_partition [of 51] classify_area_partition [of "51.1"]
    classify_area_partition [of 52]
  by simp

text \<open>
  C7: \<open>classify_price\<close> is Unknown when the distance is not positive; otherwise, with the
  rate fare / distance, it is Low below 2, Medium from 2 up to 5, High from 5 up to 10 and
  Premium from 10 on.  In particular a fare of 10 over distance 0 is Unknown and a fare of 4
  over distance 2 is Medium.
\<close>

theorem classify_price_tiers:
  "(distance \<le> 0 \<longrightarrow> classify_price fare distance = ''Unknown'') \<and>
   (0 < distance \<and> fare / distance < 2 \<longrightarrow> classify_price fare distance = ''Low'') \<and>
   (0 < distance \<and> 2 \<le> fare / distance \<and> fare / distance < 5
      \<longrightarrow> classify_price fare distance = ''Medium'') \<and>
   (0 < distance \<and> 5 \<le> fare / distance \<and> fare / distance < 10
      \<longrightarrow> classify_price fare distance = ''High'') \<and>
   (0 < distance \<and> 10 \<le> fare / distance \<longrightarrow> classify_price fare distance = ''Premium'') \<and>
   classify_price 10 0 = ''Unknown'' \<and> classify_price 4 2 = ''Medium''"
  by (simp add: classify_price_def Let_def)

theorem classify_price_tiers_witness:
  "(0::real) \<le> 0 \<and> classify_price 10 0 = ''Unknown'' \<and>
   (0::real) < 2 \<and> (3::real) / 2 < 2 \<and> classify_price 3 2 = ''Low'' \<and>
   (2::real) \<le> 4 / 2 \<and> (4::real) / 2 < 5 \<and> classify_price 4 2 = ''Medium'' \<and>
   (5::real) \<le> 12 / 2 \<and> (12::real) / 2 < 10 \<and> classify_price 12 2 = ''High'' \<and>
   (10::real) \<le> 20 / 2 \<and> classify_price 20 2 = ''Premium''"
  using classify_price_tiers [of 0 10] classify_price_tiers [of 2 3]
    classify_price_tiers [of 2 4] classify_price_tiers [of 2 12] classify_price_tiers [of 2 20]
  by simp

text \<open>
  The efficiency score is the mean of the two partial scores for every input.  The speed
  score is capped from above only and the duration score from below only, so the mean stays
  between 0 and 1 for a non-negative speed and a trip of at least 15 minutes.
\<close>

lemma calculate_efficiency_formula:
  "calculate_efficiency s d = (min (s / 60) 1.0 + max 0 (1 - (d - 15) / 30)) / 2"
  by (simp add: calculate_efficiency_def)

lemma calculate_efficiency_bounded:
  assumes "0 \<le> s" and "15 \<le> d"
  shows "0 \<le> calculate_efficiency s d \<and> calculate_efficiency s d \<le> 1"
proof -
  define a where "a = min (s / 60) 1"
  define b where "b = max 0 (1 - (d - 15) / 30)"
  have "0 \<le> a" "a \<le> 1" "0 \<le> b" "b \<le> 1"
    using assms by (simp_all add: a_def b_def)
  moreover have "calculate_efficiency s d = (a + b) / 2"
    by (simp add: calculate_efficiency_def a_def b_def)
  ultimately show ?thesis by simp
qed

text \<open>
  C2: the efficiency score equals (min(speed/60, 1) + max(0, 1 - (duration - 15)/30)) / 2
  and lies in [0, 1].  The range does not hold of the code: a trip of 5 minutes at 60 km/h
  scores 7/6.
\<close>

theorem calculate_efficiency_exceeds_one:
  "calculate_efficiency 60 5 = 7 / 6 \<and> 1 < calculate_efficiency 60 5"
  by (simp add: calculate_efficiency_def)

section \<open>Properties of the enrichment engine\<close>

text \<open>Each batch function is the per-row step mapped over the batch, in order.\<close>

lemma gps_loop_append:
  "gps_loop llm loads now str_float has_id rows results = results @ map (gps_step llm loads now str_float has_id) rows"
  by (induction rows arbitrary: results) simp_all

lemma process_gps_batch_map:
  "process_gps_batch llm loads now str_float has_id rows = map (gps_step llm loads now str_float has_id) rows"
  by (simp add: process_gps_batch_def gps_loop_append)

lemma taxi_loop_append:
  "taxi_loop llm loads now rows results = results @ map (taxi_step llm loads now) rows"
  by (induction rows arbitrary: results) simp_all

lemma process_taxi_batch_map:
  "process_taxi_batch llm loads now rows = map (taxi_step llm loads now) rows"
  by (simp add: process_taxi_batch_def taxi_loop_append)

lemma gps_step_oracle_raises:
  "llm row = Inl e \<Longrightarrow> gps_step llm loads now str_float has_id row = gps_except str_float has_id row e"
  by (simp add: gps_step_def gps_try_def gps_chain_run_def)

lemma taxi_step_oracle_raises:
  "llm row = Inl e \<Longrightarrow> taxi_step llm loads now row = taxi_except row e"
  by (simp add: taxi_step_def taxi_try_def taxi_chain_run_def)

lemma parse_decode_error:
  "loads text = Inl e \<Longrightarrow> is_JSONDecodeError e \<Longrightarrow>
   parse loads now text =
     Inr (PyDict [(''insights'', PyStr text), (''confidence'', PyFloat 0.7),
                  (''processed_at'', PyStr now)])"
  by (simp add: parse_def)

lemma parse_decoded: "loads text = Inr v \<Longrightarrow> parse loads now text = Inr v"
  by (simp add: parse_def)

lemma gps_step_wrapped:
  assumes "llm row = Inr text" and "loads text = Inl e" and "is_JSONDecodeError e"
  shows "gps_step llm loads now str_float has_id row =
     PyDict [(''insights'', PyStr text), (''confidence'', PyFloat 0.7),
             (''processed_at'', PyStr now),
             (''original_id'', PyStr (original_id str_float has_id row)),
             (''lat'', PyFloat (lat row)), (''lng'', PyFloat (lng row)),
             (''alt'', PyFloat (alt row)), (''spd'', PyFloat (spd row)),
             (''azm'', PyFloat (azm row))]"
  using assms
  by (simp add: gps_step_def gps_try_def gps_chain_run_def parse_decode_error)

lemma taxi_step_wrapped:
  assumes "llm row = Inr text" and "loads text = Inl e" and "is_JSONDecodeError e"
  shows "taxi_step llm loads now row =
     PyDict [(''insights'', PyStr text), (''confidence'', PyFloat 0.7),
             (''processed_at'', PyStr now),
             (''trip_duration_sec'', PyInt (trip_duration_sec row)),
             (''trip_duration_min'', PyFloat (trip_duration_min row)),
             (''distance_traveled_km'', PyFloat (distance_traveled_Km row)),
             (''kph'', PyFloat (KPH row)),
             (''wait_time_cost'', PyFloat (wait_time_cost row)),
             (''distance_cost'', PyFloat (distance_cost row)),
             (''total_fare_new'', PyFloat (total_fare_new row)),
             (''num_of_passengers'', PyInt (num_of_passengers row)),
             (''surge_applied'', PyBool (surge_applied row))]"
  using assms
  by (simp add: taxi_step_def taxi_try_def taxi_chain_run_def parse_decode_error)

lemma setitem_not_dict:
  "\<not> is_dict v \<Longrightarrow> \<exists>msg. setitem v k x = Inl (PyExc TypeError msg)"
  by (cases v) simp_all

lemma gps_step_not_dict:
  assumes "llm row = Inr text" and "loads text = Inr v"
    and "setitem v ''original_id'' (PyStr (original_id str_float has_id row)) = Inl e"
  shows "gps_step llm loads now str_float has_id row = gps_except str_float has_id row e"
  using assms by (simp add: gps_step_def gps_try_def gps_chain_run_def parse_decoded)

text \<open>
  C1: when the oracle raises on every row of the batch, \<open>process_gps_batch\<close> and
  \<open>process_taxi_batch\<close> return one record per input row, in input order (no exception leaves
  the batch: both functions return a list); every record carries the labels of the
  classifier rules, \<open>road_type\<close> is the literal Unknown (GPS), and the insight is the
  text "Error processing: " followed by the message of the exception.
\<close>

theorem batches_survive_failing_oracle:
  assumes "\<forall>row \<in> set gps_data. llm_gps row = Inl (gps_error row)"
    and "\<forall>row \<in> set taxi_data. llm_taxi row = Inl (taxi_error row)"
  shows "length (process_gps_batch llm_gps loads now str_float has_id gps_data) = length gps_data \<and>
    length (process_taxi_batch llm_taxi loads now taxi_data) = length taxi_data \<and>
    process_gps_batch llm_gps loads now str_float has_id gps_data =
      map (\<lambda>row. PyDict
            [(''original_id'', PyStr (original_id str_float has_id row)),
             (''lat'', PyFloat (lat row)),
             (''lng'', PyFloat (lng row)),
             (''alt'', PyFloat (alt row)),
             (''spd'', PyFloat (spd row)),
             (''azm'', PyFloat (azm row)),
             (''area_classification'', PyStr (classify_area (lat row))),
             (''activity_level'', PyStr (classify_activity (spd row))),
             (''road_type'', PyStr ''Unknown''),
             (''insights'', PyStr (''Error processing: '' @ exc_str (gps_error row)))])
        gps_data \<and>
    process_taxi_batch llm_taxi loads now taxi_data =
      map (\<lambda>row. PyDict
            [(''trip_duration_sec'', PyInt (trip_duration_sec row)),
             (''trip_duration_min'', PyFloat (trip_duration_min row)),
             (''distance_traveled_km'', PyFloat (distance_traveled_Km row)),
             (''kph'', PyFloat (KPH row)),
             (''wait_time_cost'', PyFloat (wait_time_cost row)),
             (''distance_cost'', PyFloat (distance_cost row)),
             (''total_fare_new'', PyFloat (total_fare_new row)),
             (''num_of_passengers'', PyInt (num_of_passengers row)),
             (''surge_applied'', PyBool (surge_applied row)),
             (''trip_category'', PyStr (classify_trip_duration (trip_duration_min row))),
             (''price_category'',
                PyStr (classify_price (total_fare_new row) (distance_traveled_Km row))),
             (''efficiency_score'',
                PyFloat (calculate_efficiency (KPH row) (trip_duration_min row))),
             (''insights'', PyStr (''Error processing: '' @ exc_str (taxi_error row)))])
        taxi_data"
proof -
  have g: "map (gps_step llm_gps loads now str_float has_id) gps_data =
           map (\<lambda>row. gps_except str_float has_id row (gps_error row)) gps_data"
    using assms(1) by (intro map_cong refl) (simp add: gps_step_oracle_raises)
  have t: "map (taxi_step llm_taxi loads now) taxi_data =
           map (\<lambda>row. taxi_except row (taxi_error row)) taxi_data"
    using assms(2) by (intro map_cong refl) (simp add: taxi_step_oracle_raises)
  show ?thesis
    unfolding process_gps_batch_map process_taxi_batch_map g t
    by (simp add: gps_except_def taxi_except_def)
qed

theorem batches_survive_failing_oracle_witness:
  "list_all (\<lambda>row. (\<lambda>r. Inl (PyExc TimeoutError ''timed out'')) row
                     = (Inl (PyExc TimeoutError ''timed out'') :: py_exception + string))
     [\<lparr>idx = 0, randomized_id = 7, lat = 51.13, lng = 71.43, alt = 350,
        spd = 12, azm = 90\<rparr>,
      \<lparr>idx = 1, randomized_id = 8, lat = 51.05, lng = 71.4, alt = 340,
        spd = 2, azm = 180\<rparr>] \<and>
   list_all (\<lambda>row. (\<lambda>r. Inl (PyExc ConnectionError ''connection refused'')) row
                     = (Inl (PyExc ConnectionError ''connection refused'')
                          :: py_exception + string))
     [\<lparr>trip_duration_sec = 1200, trip_duration_min = 20, distance_traveled_Km = 5,
        KPH = 15, wait_time_cost = 1, distance_cost = 9, total_fare_new = 15,
        num_of_passengers = 2, surge_applied = False\<rparr>] \<and>
   map (\<lambda>r. (field r ''original_id'', field r ''area_classification'',
              field r ''activity_level'', field r ''road_type'', field r ''insights''))
     (process_gps_batch (\<lambda>r. Inl (PyExc TimeoutError ''timed out''))
        (\<lambda>s. Inl (PyExc JSONDecodeError ''Expecting value'')) ''2024-01-01T00:00:00''
        (\<lambda>x. if x = 7 then ''7.0'' else ''8.0'') True
        [\<lparr>idx = 0, randomized_id = 7, lat = 51.13, lng = 71.43, alt = 350,
           spd = 12, azm = 90\<rparr>,
         \<lparr>idx = 1, randomized_id = 8, lat = 51.05, lng = 71.4, alt = 340,
           spd = 2, azm = 180\<rparr>]) =
     [(Some (PyStr ''7.0''), Some (PyStr ''North''), Some (PyStr ''High''),
       Some (PyStr ''Unknown''), Some (PyStr ''Error processing: timed out'')),
      (Some (PyStr ''8.0''), Some (PyStr ''South''), Some (PyStr ''Low''),
       Some (PyStr ''Unknown''), Some (PyStr ''Error processing: timed out''))] \<and>
   map (\<lambda>r. (field r ''trip_category'', field r ''price_category'',
              field r ''efficiency_score'', field r ''insights''))
     (process_taxi_batch (\<lambda>r. Inl (PyExc ConnectionError ''connection refused''))
        (\<lambda>s. Inl (PyExc JSONDecodeError ''Expecting value'')) ''2024-01-01T00:00:00''
        [\<lparr>trip_duration_sec = 1200, trip_duration_min = 20, distance_traveled_Km = 5,
           KPH = 15, wait_time_cost = 1, distance_cost = 9, total_fare_new = 15,
           num_of_passengers = 2, surge_applied = False\<rparr>]) =
     [(Some (PyStr ''Medium''), Some (PyStr ''Medium''), Some (PyFloat (13 / 24)),
       Some (PyStr ''Error processing: connection refused''))]"
  using batches_survive_failing_oracle
    [where gps_data = "[\<lparr>idx = 0, randomized_id = 7, lat = 51.13, lng = 71.43, alt = 350,
                          spd = 12, azm = 90\<rparr>,
                        \<lparr>idx = 1, randomized_id = 8, lat = 51.05, lng = 71.4, alt = 340,
                          spd = 2, azm = 180\<rparr>]"
       and llm_gps = "\<lambda>r. Inl (PyExc TimeoutError ''timed out'')"
       and gps_error = "\<lambda>r. PyExc TimeoutError ''timed out''"
       and taxi_data = "[\<lparr>trip_duration_sec = 1200, trip_duration_min = 20,
                          distance_traveled_Km = 5, KPH = 15, wait_time_cost = 1,
                          distance_cost = 9, total_fare_new = 15, num_of_passengers = 2,
                          surge_applied = False\<rparr>]"
       and llm_taxi = "\<lambda>r. Inl (PyExc ConnectionError ''connection refused'')"
       and taxi_error = "\<lambda>r. PyExc ConnectionError ''connection refused''"
       and loads = "\<lambda>s. Inl (PyExc JSONDecodeError ''Expecting value'')"
       and now = "''2024-01-01T00:00:00''"
       and str_float = "\<lambda>x. if x = 7 then ''7.0'' else ''8.0''"
       and has_id = True]
  by (simp add: original_id_def classify_area_def classify_activity_def
      classify_trip_duration_def classify_price_def calculate_efficiency_def)

text \<open>
  C5: for a response that the JSON decoder rejects, \<open>parse\<close> does not raise: it returns the
  dictionary holding the response verbatim under \<open>insights\<close>, the confidence 0.7 and the
  time stamp.  The response is then recoverable from the emitted record: the record of
  every row whose oracle call returned this response has it, unchanged, under \<open>insights\<close>.
\<close>

theorem unparsed_text_kept_as_insight:
  assumes "loads response = Inl e" and "is_JSONDecodeError e"
  shows "parse loads now response =
      Inr (PyDict [(''insights'', PyStr response), (''confidence'', PyFloat 0.7),
                   (''processed_at'', PyStr now)]) \<and>
    (\<forall>i < length gps_data. llm_gps (gps_data ! i) = Inr response \<longrightarrow>
       field (process_gps_batch llm_gps loads now str_float has_id gps_data ! i) ''insights''
         = Some (PyStr response)) \<and>
    (\<forall>i < length taxi_data. llm_taxi (taxi_data ! i) = Inr response \<longrightarrow>
       field (process_taxi_batch llm_taxi loads now taxi_data ! i) ''insights''
         = Some (PyStr response))"
  using assms
  by (simp add: parse_decode_error process_gps_batch_map process_taxi_batch_map
      gps_step_wrapped taxi_step_wrapped)

theorem unparsed_text_kept_as_insight_witness:
  "(\<lambda>s. if s = ''[1, 2]'' then Inr (PyList [PyInt 1, PyInt 2])
         else Inl (PyExc JSONDecodeError ''Expecting value'')) ''busy street''
     = Inl (PyExc JSONDecodeError ''Expecting value'') \<and>
   is_JSONDecodeError (PyExc JSONDecodeError ''Expecting value'') \<and>
   parse (\<lambda>s. if s = ''[1, 2]'' then Inr (PyList [PyInt 1, PyInt 2])
               else Inl (PyExc JSONDecodeError ''Expecting value''))
     ''2024-01-01T00:00:00'' ''busy street''
     = Inr (PyDict [(''insights'', PyStr ''busy street''), (''confidence'', PyFloat 0.7),
                    (''processed_at'', PyStr ''2024-01-01T00:00:00'')]) \<and>
   field (process_gps_batch (\<lambda>r. Inr ''busy street'')
            (\<lambda>s. if s = ''[1, 2]'' then Inr (PyList [PyInt 1, PyInt 2])
                  else Inl (PyExc JSONDecodeError ''Expecting value''))
            ''2024-01-01T00:00:00'' (\<lambda>x. if x = 7 then ''7.0'' else ''8.0'') True
            [\<lparr>idx = 0, randomized_id = 7, lat = 51.13, lng = 71.43, alt = 350,
               spd = 12, azm = 90\<rparr>] ! 0) ''insights''
     = Some (PyStr ''busy street'') \<and>
   field (process_taxi_batch (\<lambda>r. Inr ''busy street'')
            (\<lambda>s. if s = ''[1, 2]'' then Inr (PyList [PyInt 1, PyInt 2])
                  else Inl (PyExc JSONDecodeError ''Expecting value''))
            ''2024-01-01T00:00:00''
            [\<lparr>trip_duration_sec = 1200, trip_duration_min = 20, distance_traveled_Km = 5,
               KPH = 15, wait_time_cost = 1, distance_cost = 9, total_fare_new = 15,
               num_of_passengers = 2, surge_applied = False\<rparr>] ! 0) ''insights''
     = Some (PyStr ''busy street'')"
  using unparsed_text_kept_as_insight
    [where loads = "\<lambda>s. if s = ''[1, 2]'' then Inr (PyList [PyInt 1, PyInt 2])
                       else Inl (PyExc JSONDecodeError ''Expecting value'')"
       and response = "''busy street''"
       and e = "PyExc JSONDecodeError ''Expecting value''"
       and now = "''2024-01-01T00:00:00''"
       and str_float = "\<lambda>x. if x = 7 then ''7.0'' else ''8.0''"
       and has_id = True
       and gps_data = "[\<lparr>idx = 0, randomized_id = 7, lat = 51.13, lng = 71.43,
                          alt = 350, spd = 12, azm = 90\<rparr>]"
       and llm_gps = "\<lambda>r. Inr ''busy street''"
       and taxi_data = "[\<lparr>trip_duration_sec = 1200, trip_duration_min = 20,
                          distance_traveled_Km = 5, KPH = 15, wait_time_cost = 1,
                          distance_cost = 9, total_fare_new = 15, num_of_passengers = 2,
                          surge_applied = False\<rparr>]"
       and llm_taxi = "\<lambda>r. Inr ''busy street''"]
  by simp

text \<open>
  C9: when the oracle returns a response that decodes to a JSON value other than an object
  (a list, a number, a string, a boolean, null), the first store into the result raises
  \<open>TypeError\<close>; the exception is caught and the row gets the rule-based record, whose
  insight is the error description, and not a wrapped oracle result (it has no
  \<open>confidence\<close> entry).
\<close>

theorem non_object_json_gets_rule_based_record:
  assumes "i < length gps_data"
    and "llm (gps_data ! i) = Inr response"
    and "loads response = Inr v"
    and "\<not> is_dict v"
  shows "\<exists>msg.
    setitem v ''original_id'' (PyStr (original_id str_float has_id (gps_data ! i))) = Inl (PyExc TypeError msg) \<and>
    process_gps_batch llm loads now str_float has_id gps_data ! i =
      PyDict [(''original_id'', PyStr (original_id str_float has_id (gps_data ! i))),
              (''lat'', PyFloat (lat (gps_data ! i))),
              (''lng'', PyFloat (lng (gps_data ! i))),
              (''alt'', PyFloat (alt (gps_data ! i))),
              (''spd'', PyFloat (spd (gps_data ! i))),
              (''azm'', PyFloat (azm (gps_data ! i))),
              (''area_classification'', PyStr (classify_area (lat (gps_data ! i)))),
              (''activity_level'', PyStr (classify_activity (spd (gps_data ! i)))),
              (''road_type'', PyStr ''Unknown''),
              (''insights'', PyStr (''Error processing: '' @ msg))] \<and>
    field (process_gps_batch llm loads now str_float has_id gps_data ! i) ''confidence'' = None"
proof -
  obtain msg where m:
    "setitem v ''original_id'' (PyStr (original_id str_float has_id (gps_data ! i))) = Inl (PyExc TypeError msg)"
    using setitem_not_dict [OF assms(4)] by blast
  have "gps_step llm loads now str_float has_id (gps_data ! i) = gps_except str_float has_id (gps_data ! i) (PyExc TypeError msg)"
    using assms(2,3) m by (rule gps_step_not_dict)
  then show ?thesis
    using assms(1) m by (simp add: process_gps_batch_map gps_except_def)
qed

theorem non_object_json_gets_rule_based_record_witness:
  "(0::nat) < length [\<lparr>idx = 0, randomized_id = 7, lat = 51.13, lng = 71.43, alt = 350,
                        spd = 12, azm = 90\<rparr>] \<and>
   (\<lambda>s. if s = ''[1, 2]'' then Inr (PyList [PyInt 1, PyInt 2])
         else Inl (PyExc JSONDecodeError ''Expecting value'')) ''[1, 2]''
     = Inr (PyList [PyInt 1, PyInt 2]) \<and>
   \<not> is_dict (PyList [PyInt 1, PyInt 2]) \<and>
   process_gps_batch (\<lambda>r. Inr ''[1, 2]'')
     (\<lambda>s. if s = ''[1, 2]'' then Inr (PyList [PyInt 1, PyInt 2])
           else Inl (PyExc JSONDecodeError ''Expecting value''))
     ''2024-01-01T00:00:00'' (\<lambda>x. if x = 7 then ''7.0'' else ''8.0'') False
     [\<lparr>idx = 0, randomized_id = 7, lat = 51.13, lng = 71.43, alt = 350,
        spd = 12, azm = 90\<rparr>] ! 0
     = PyDict [(''original_id'', PyStr ''0''),
               (''lat'', PyFloat 51.13), (''lng'', PyFloat 71.43), (''alt'', PyFloat 350),
               (''spd'', PyFloat 12), (''azm'', PyFloat 90),
               (''area_classification'', PyStr ''North''),
               (''activity_level'', PyStr ''High''),
               (''road_type'', PyStr ''Unknown''),
               (''insights'',
                PyStr ''Error processing: list indices must be integers or slices, not str'')]"
  using non_object_json_gets_rule_based_record
    [where i = 0
       and gps_data = "[\<lparr>idx = 0, randomized_id = 7, lat = 51.13, lng = 71.43,
                          alt = 350, spd = 12, azm = 90\<rparr>]"
       and llm = "\<lambda>r. Inr ''[1, 2]''"
       and response = "''[1, 2]''"
       and loads = "\<lambda>s. if s = ''[1, 2]'' then Inr (PyList [PyInt 1, PyInt 2])
                         else Inl (PyExc JSONDecodeError ''Expecting value'')"
       and v = "PyList [PyInt 1, PyInt 2]"
       and now = "''2024-01-01T00:00:00''"
       and str_float = "\<lambda>x. if x = 7 then ''7.0'' else ''8.0''"
       and has_id = False]
  by (auto simp: original_id_def str_int_def str_nat.simps digit_char_def classify_area_def
      classify_activity_def)

section \<open>Properties of the aggregator\<close>

text \<open>
  Summing a column raises only on a NULL entry, and then \<open>TypeError\<close>; without one the
  sum is the sum of the stored values.  The speed query filters the NULL speeds out, so
  the mean speed never raises.
\<close>

lemma sum_from_no_null:
  "None \<notin> set rows \<Longrightarrow>
   sum_from acc_type acc rows = Inr (acc + sum_list (List.map_filter (\<lambda>v. v) rows))"
proof (induction rows arbitrary: acc_type acc)
  case Nil
  show ?case by (simp add: List.map_filter_simps)
next
  case (Cons v rows)
  then obtain x where v: "v = Some x" by (cases v) auto
  with Cons show ?case by (simp add: List.map_filter_simps add.assoc)
qed



lemma mean_or_zero_no_null:
  assumes "None \<notin> set rows"
  shows "mean_or_zero rows =
     Inr (if rows = [] then 0
          else sum_list (List.map_filter (\<lambda>v. v) rows) / real (length rows))"
  using assms by (simp add: mean_or_zero_def py_sum_def sum_from_no_null py_truediv_def)

lemma map_filter_column: "List.map_filter (\<lambda>v. v) (map f rows) = List.map_filter f rows"
  by (induction rows) (simp_all add: List.map_filter_simps split: option.splits)

lemma moving_no_null: "None \<notin> set (map g_spd (filter (\<lambda>r. sql_gt_zero (g_spd r)) rows))"
  by (auto simp: sql_gt_zero_def)

lemma moving_values:
  "List.map_filter g_spd (filter (\<lambda>r. sql_gt_zero (g_spd r)) rows)
     = filter (\<lambda>x. 0 < x) (List.map_filter g_spd rows)"
  by (induction rows) (auto simp: List.map_filter_simps sql_gt_zero_def split: option.splits)

lemma moving_length:
  "length (filter (\<lambda>r. sql_gt_zero (g_spd r)) rows)
     = length (filter (\<lambda>x. 0 < x) (List.map_filter g_spd rows))"
  by (induction rows) (auto simp: List.map_filter_simps sql_gt_zero_def split: option.splits)

lemma avg_speed_eq:
  "mean_or_zero (map g_spd (filter (\<lambda>r. sql_gt_zero (g_spd r)) rows)) =
     Inr (if filter (\<lambda>x. 0 < x) (List.map_filter g_spd rows) = [] then 0
          else sum_list (filter (\<lambda>x. 0 < x) (List.map_filter g_spd rows))
                 / real (length (filter (\<lambda>x. 0 < x) (List.map_filter g_spd rows))))"
proof -
  have e: "(filter (\<lambda>r. sql_gt_zero (g_spd r)) rows = [])
       = (filter (\<lambda>x. 0 < x) (List.map_filter g_spd rows) = [])"
    using moving_length [of rows] by (metis length_0_conv)
  show ?thesis
    unfolding mean_or_zero_no_null [OF moving_no_null]
    by (simp add: map_filter_column moving_values moving_length e)
qed

text \<open>
  When no summed column holds a NULL the result can be written without the exception
  plumbing; on any corpus the only exception is \<open>TypeError\<close>, and a returned result has
  the ten entries in source order.
\<close>

lemma column_no_null:
  "list_all (\<lambda>r. f r \<noteq> None) rows \<Longrightarrow> None \<notin> set (map f rows)"
  by (induction rows) auto

lemma column_mean:
  assumes "list_all (\<lambda>r. f r \<noteq> None) rows"
  shows "mean_or_zero (map f rows) =
     Inr (if rows = [] then 0 else sum_list (List.map_filter f rows) / real (length rows))"
  using mean_or_zero_no_null [OF column_no_null [OF assms]]
  by (simp add: map_filter_column)

lemma calculate_aggregate_metrics_eq:
  assumes "no_null_sums db"
  shows "calculate_aggregate_metrics db =
     (let moving = filter (\<lambda>x. 0 < x) (List.map_filter g_spd (gps_table db));
          avg_speed = (if moving = [] then 0 else sum_list moving / real (length moving));
          trips = taxi_table db;
          n = real (length trips);
          avg_fare = (if trips = [] then 0
                      else sum_list (List.map_filter t_total_fare_new trips) / n);
          avg_duration = (if trips = [] then 0
                          else sum_list (List.map_filter t_trip_duration_min trips) / n);
          avg_distance = (if trips = [] then 0
                          else sum_list (List.map_filter t_distance_traveled_km trips) / n);
          surge = (if trips = [] then 0
                   else real (length (filter (\<lambda>r. t_surge_applied r = Some True) trips))
                          / n * 100);
          price = (if avg_distance > 0 then avg_fare / avg_distance * 541 else 0)
      in Inr [(''gps_points_count'', PyInt (int (length (gps_table db)))),
           (''avg_speed_mps'', PyFloat avg_speed),
           (''avg_speed_kmh'', PyFloat (avg_speed * 3.6)),
           (''taxi_trips_count'', PyInt (int (length trips))),
           (''avg_fare_usd'', PyFloat avg_fare),
           (''avg_fare_tenge'', PyFloat (avg_fare * 541)),
           (''avg_trip_duration_min'', PyFloat avg_duration),
           (''avg_distance_km'', PyFloat avg_distance),
           (''surge_percentage'', PyFloat surge),
           (''price_per_km_tenge'', PyFloat price)])"
proof -
  have f: "list_all (\<lambda>r. t_total_fare_new r \<noteq> None) (taxi_table db)"
    and d: "list_all (\<lambda>r. t_trip_duration_min r \<noteq> None) (taxi_table db)"
    and k: "list_all (\<lambda>r. t_distance_traveled_km r \<noteq> None) (taxi_table db)"
    using assms by (auto simp: no_null_sums_def list_all_iff)
  show ?thesis
    unfolding calculate_aggregate_metrics_def avg_speed_eq column_mean [OF f]
      column_mean [OF d] column_mean [OF k]
    by (simp add: py_truediv_def Let_def)
qed


lemma calculate_aggregate_metrics_shape:
  assumes "calculate_aggregate_metrics db = Inr m"
  shows "\<exists>avg_speed avg_fare avg_duration avg_distance price.
     m = [(''gps_points_count'', PyInt (int (length (gps_table db)))),
          (''avg_speed_mps'', PyFloat avg_speed),
          (''avg_speed_kmh'', PyFloat (avg_speed * 3.6)),
          (''taxi_trips_count'', PyInt (int (length (taxi_table db)))),
          (''avg_fare_usd'', PyFloat avg_fare),
          (''avg_fare_tenge'', PyFloat (avg_fare * 541)),
          (''avg_trip_duration_min'', PyFloat avg_duration),
          (''avg_distance_km'', PyFloat avg_distance),
          (''surge_percentage'',
             PyFloat (if taxi_table db = [] then 0
                      else real (length (filter (\<lambda>r. t_surge_applied r = Some True)
                                           (taxi_table db)))
                             / real (length (taxi_table db)) * 100)),
          (''price_per_km_tenge'', PyFloat price)]"
proof -
  let ?fare = "mean_or_zero (map t_total_fare_new (taxi_table db))"
  let ?dur = "mean_or_zero (map t_trip_duration_min (taxi_table db))"
  let ?dist = "mean_or_zero (map t_distance_traveled_km (taxi_table db))"
  obtain avg_fare where fare: "?fare = Inr avg_fare"
    using assms
    by (cases ?fare) (simp_all add: calculate_aggregate_metrics_def avg_speed_eq Let_def)
  obtain avg_duration where dur: "?dur = Inr avg_duration"
    using assms fare
    by (cases ?dur) (simp_all add: calculate_aggregate_metrics_def avg_speed_eq Let_def)
  obtain avg_distance where dist: "?dist = Inr avg_distance"
    using assms fare dur
    by (cases ?dist) (simp_all add: calculate_aggregate_metrics_def avg_speed_eq Let_def)
  from assms fare dur dist show ?thesis
    by (auto simp: calculate_aggregate_metrics_def avg_speed_eq Let_def py_truediv_def
        split: if_splits)
qed




text \<open>
  C10: whenever \<open>calculate_aggregate_metrics\<close> returns, the surge percentage lies between
  0 and 100, the trips with a surge being some of the trips; and it does return when no
  summed column holds a NULL.
\<close>

theorem surge_percentage_range:
  "(\<forall>m. calculate_aggregate_metrics db = Inr m \<longrightarrow>
      (\<exists>p. map_of m ''surge_percentage'' = Some (PyFloat p) \<and> 0 \<le> p \<and> p \<le> 100)) \<and>
   (no_null_sums db \<longrightarrow> (\<exists>m. calculate_aggregate_metrics db = Inr m))"
proof (intro conjI allI impI)
  fix m
  assume m: "calculate_aggregate_metrics db = Inr m"
  let ?trips = "taxi_table db"
  let ?p = "if ?trips = [] then 0
            else real (length (filter (\<lambda>r. t_surge_applied r = Some True) ?trips))
                   / real (length ?trips) * 100"
  have "length (filter (\<lambda>r. t_surge_applied r = Some True) ?trips) \<le> length ?trips"
    by (rule length_filter_le)
  then have "0 \<le> ?p \<and> ?p \<le> 100"
    by (simp add: divide_le_eq)
  moreover have "map_of m ''surge_percentage'' = Some (PyFloat ?p)"
    using calculate_aggregate_metrics_shape [OF m] by auto
  ultimately show "\<exists>p. map_of m ''surge_percentage'' = Some (PyFloat p) \<and> 0 \<le> p \<and> p \<le> 100"
    by blast
next
  assume "no_null_sums db"
  then show "\<exists>m. calculate_aggregate_metrics db = Inr m"
    by (simp add: calculate_aggregate_metrics_eq Let_def)
qed

theorem surge_percentage_range_witness:
  "no_null_sums
     \<lparr>gps_table = [],
      taxi_table = [\<lparr>t_trip_duration_min = Some 10, t_distance_traveled_km = Some 4,
                      t_kph = Some 24, t_total_fare_new = Some 8,
                      t_surge_applied = Some True\<rparr>,
                    \<lparr>t_trip_duration_min = Some 20, t_distance_traveled_km = Some 6,
                      t_kph = None, t_total_fare_new = Some 12,
                      t_surge_applied = None\<rparr>]\<rparr> \<and>
   (\<exists>m. calculate_aggregate_metrics
          \<lparr>gps_table = [],
           taxi_table = [\<lparr>t_trip_duration_min = Some 10, t_distance_traveled_km = Some 4,
                           t_kph = Some 24, t_total_fare_new = Some 8,
                           t_surge_applied = Some True\<rparr>,
                         \<lparr>t_trip_duration_min = Some 20, t_distance_traveled_km = Some 6,
                           t_kph = None, t_total_fare_new = Some 12,
                           t_surge_applied = None\<rparr>]\<rparr> = Inr m \<and>
        (\<exists>p. map_of m ''surge_percentage'' = Some (PyFloat p) \<and> 0 \<le> p \<and> p \<le> 100 \<and>
             p = 50))"
proof -
  let ?db = "\<lparr>gps_table = [],
      taxi_table = [\<lparr>t_trip_duration_min = Some 10, t_distance_traveled_km = Some 4,
                      t_kph = Some 24, t_total_fare_new = Some 8,
                      t_surge_applied = Some True\<rparr>,
                    \<lparr>t_trip_duration_min = Some 20, t_distance_traveled_km = Some 6,
                      t_kph = None, t_total_fare_new = Some 12,
                      t_surge_applied = None\<rparr>]\<rparr>"
  have n: "no_null_sums ?db" by (simp add: no_null_sums_def)
  with surge_percentage_range [of ?db] obtain m where m: "calculate_aggregate_metrics ?db = Inr m"
    by blast
  with surge_percentage_range [of ?db] obtain p where
    p: "map_of m ''surge_percentage'' = Some (PyFloat p)" "0 \<le> p" "p \<le> 100"
    by blast
  from m have "map_of m ''surge_percentage'' = Some (PyFloat 50)"
    by (auto simp: calculate_aggregate_metrics_eq [OF n] Let_def)
  with p have "p = 50" by simp
  with n m p show ?thesis by blast
qed

text \<open>
  C4: the aggregator returns, for each metric name, a structure with the fields value, kind
  and description, the shape that \<open>save_analytics_metrics\<close> reads.  The code returns a bare
  number for each name; \<open>save_analytics_metrics\<close> calls \<^verbatim>\<open>.get\<close> on it, which raises, and
  skips the metric: on the empty corpus ten numbers are returned and none is stored.
\<close>

theorem flat_metrics_are_not_saved:
  "calculate_aggregate_metrics \<lparr>gps_table = [], taxi_table = []\<rparr> =
     Inr [(''gps_points_count'', PyInt 0), (''avg_speed_mps'', PyFloat 0),
          (''avg_speed_kmh'', PyFloat 0), (''taxi_trips_count'', PyInt 0),
          (''avg_fare_usd'', PyFloat 0), (''avg_fare_tenge'', PyFloat 0),
          (''avg_trip_duration_min'', PyFloat 0), (''avg_distance_km'', PyFloat 0),
          (''surge_percentage'', PyFloat 0), (''price_per_km_tenge'', PyFloat 0)] \<and>
   save_analytics_metrics utcnow
     [(''gps_points_count'', PyInt 0), (''avg_speed_mps'', PyFloat 0),
      (''avg_speed_kmh'', PyFloat 0), (''taxi_trips_count'', PyInt 0),
      (''avg_fare_usd'', PyFloat 0), (''avg_fare_tenge'', PyFloat 0),
      (''avg_trip_duration_min'', PyFloat 0), (''avg_distance_km'', PyFloat 0),
      (''surge_percentage'', PyFloat 0), (''price_per_km_tenge'', PyFloat 0)] = (0, [])"
  by (simp add: calculate_aggregate_metrics_def mean_or_zero_def Let_def
      save_analytics_metrics_def metric_record_def)

text \<open>The same happens on every corpus for which a result is returned.\<close>

lemma save_loop_numbers:
  "\<forall>(name, v) \<in> set metrics. \<not> is_dict v \<Longrightarrow> save_loop utcnow metrics st = st"
proof (induction metrics arbitrary: st)
  case Nil
  then show ?case by simp
next
  case (Cons a metrics)
  obtain name v where a: "a = (name, v)" by (cases a)
  obtain c added where st: "st = (c, added)" by (cases st)
  from Cons.prems a have "\<not> is_dict v" by simp
  then have "\<exists>e. metric_record utcnow name v = Inl e"
    by (cases v) (simp_all add: metric_record_def)
  then show ?case using Cons a st by auto
qed

lemma calculated_metrics_are_numbers:
  assumes "calculate_aggregate_metrics db = Inr m"
  shows "\<forall>(name, v) \<in> set m. \<not> is_dict v"
  using calculate_aggregate_metrics_shape [OF assms] by auto

lemma calculated_metrics_never_saved:
  assumes "calculate_aggregate_metrics db = Inr m"
  shows "save_analytics_metrics utcnow m = (0, [])"
  unfolding save_analytics_metrics_def
  using calculated_metrics_are_numbers [OF assms] by (rule save_loop_numbers)

section \<open>Properties of the batch driver\<close>

text \<open>
  The loop started at row \<open>i\<close> appends the slices of length \<open>bs\<close> that begin at
  \<open>i\<close>, \<open>i + bs\<close>, ..., their results and one progress message for each.
\<close>

lemma batch_count_step:
  assumes "0 < bs" and "i < n"
  shows "batch_count bs (n - i) = Suc (batch_count bs (n - (i + bs)))"
proof (cases "n - i \<le> bs")
  case True
  then have "(n - i - 1) div bs = 0" using assms by simp
  moreover have "n - (i + bs) = 0" using True by simp
  ultimately show ?thesis using assms by (simp add: batch_count_def)
next
  case False
  then have "n - i - 1 = (n - (i + bs) - 1) + bs" by simp
  then have "(n - i - 1) div bs = Suc ((n - (i + bs) - 1) div bs)"
    using assms(1) by (metis div_add_self2 less_numeral_extra(3) Suc_eq_plus1)
  then show ?thesis using False assms by (simp add: batch_count_def)
qed

lemma upt_Suc_shift: "[0..<Suc c] = 0 # map Suc [0..<c]"
  by (simp add: upt_conv_Cons map_Suc_upt del: upt_Suc)

lemma batch_loop_closed:
  assumes "0 < bs"
  shows "batch_loop process bs df i (results, batches, logged) =
     (results @ concat (map (\<lambda>k. process (take bs (drop (i + k * bs) df)))
                         [0..<batch_count bs (length df - i)]),
      batches @ map (\<lambda>k. take bs (drop (i + k * bs) df)) [0..<batch_count bs (length df - i)],
      logged @ map (\<lambda>k. ((i + k * bs) div bs + 1, (length df - 1) div bs + 1))
                 [0..<batch_count bs (length df - i)])"
  using assms
proof (induction process bs df i "(results, batches, logged)"
    arbitrary: results batches logged rule: batch_loop.induct)
  case (1 process bs df i results batches logged)
  show ?case
  proof (cases "i < length df")
    case True
    let ?c = "batch_count bs (length df - (i + bs))"
    have c: "batch_count bs (length df - i) = Suc ?c"
      using "1.prems" True by (rule batch_count_step)
    have sh: "\<And>k. i + Suc k * bs = i + bs + k * bs" by simp
    have ih: "batch_loop process bs df (i + bs)
          (results @ process (take bs (drop i df)), batches @ [take bs (drop i df)],
           logged @ [(i div bs + 1, (length df - 1) div bs + 1)]) =
       ((results @ process (take bs (drop i df))) @
          concat (map (\<lambda>k. process (take bs (drop (i + bs + k * bs) df))) [0..<?c]),
        (batches @ [take bs (drop i df)]) @
          map (\<lambda>k. take bs (drop (i + bs + k * bs) df)) [0..<?c],
        (logged @ [(i div bs + 1, (length df - 1) div bs + 1)]) @
          map (\<lambda>k. ((i + bs + k * bs) div bs + 1, (length df - 1) div bs + 1)) [0..<?c])"
      using "1.prems" True by (intro "1.hyps") simp_all
    have "batch_loop process bs df i (results, batches, logged) =
        batch_loop process bs df (i + bs)
          (results @ process (take bs (drop i df)), batches @ [take bs (drop i df)],
           logged @ [(i div bs + 1, (length df - 1) div bs + 1)])"
      using "1.prems" True by (subst batch_loop.simps) simp
    also note ih
    finally show ?thesis
      unfolding c upt_Suc_shift
      by (simp only: list.map map_map o_def sh concat.simps append_assoc append.simps
            mult_0 add_0_right)
  next
    case False
    then have "batch_count bs (length df - i) = 0"
      by (simp add: batch_count_def)
    then show ?thesis using False by (subst batch_loop.simps) simp
  qed
qed

lemma run_batches_closed:
  assumes "0 < bs"
  shows "run_batches process bs df =
     Inr (concat (map process (map (\<lambda>k. take bs (drop (k * bs) df))
                                   [0..<batch_count bs (length df)])),
          map (\<lambda>k. take bs (drop (k * bs) df)) [0..<batch_count bs (length df)],
          map (\<lambda>k. (k + 1, (length df - 1) div bs + 1)) [0..<batch_count bs (length df)])"
  using assms by (simp add: run_batches_def batch_loop_closed o_def)

lemma concat_slices:
  "concat (map (\<lambda>k. take bs (drop (k * bs) df)) [0..<c]) = take (c * bs) df"
proof (induction c)
  case 0
  show ?case by simp
next
  case (Suc c)
  have "take (c * bs) df @ take bs (drop (c * bs) df) = take (c * bs + bs) df"
    by (simp add: take_add)
  with Suc show ?case by (simp add: add.commute)
qed

lemma batch_count_covers:
  assumes "0 < bs"
  shows "n \<le> batch_count bs n * bs"
proof (cases "n = 0")
  case True
  then show ?thesis by simp
next
  case False
  have "n - 1 = (n - 1) div bs * bs + (n - 1) mod bs" by simp
  moreover have "(n - 1) mod bs < bs" using assms by simp
  ultimately have "n - 1 < (n - 1) div bs * bs + bs" by linarith
  then show ?thesis using False by (simp add: batch_count_def)
qed

lemma batch_count_below:
  assumes "0 < bs" and "k < batch_count bs n"
  shows "k * bs < n"
proof -
  from assms(2) have n: "n \<noteq> 0" and k: "k \<le> (n - 1) div bs"
    by (auto simp: batch_count_def split: if_splits)
  from k have "k * bs \<le> (n - 1) div bs * bs" by simp
  also have "\<dots> \<le> n - 1" by simp
  finally show ?thesis using n by simp
qed

lemma slice_length:
  assumes "0 < bs" and "k < batch_count bs (length df)"
  shows "0 < length (take bs (drop (k * bs) df)) \<and> length (take bs (drop (k * bs) df)) \<le> bs"
  using batch_count_below [OF assms] assms(1) by simp

lemma slice_full:
  assumes "0 < bs" and "Suc k < batch_count bs (length df)"
  shows "length (take bs (drop (k * bs) df)) = bs"
  using batch_count_below [OF assms] by simp

lemma batch_count_2500: "batch_count 1000 2500 = 3"
  by (simp add: batch_count_def)

lemma slices_2500:
  assumes "length df = 2500"
  shows "map length (map (\<lambda>k. take 1000 (drop (k * 1000) df)) [0, 1, 2::nat]) = [1000, 1000, 500]"
  using assms by simp

lemma logged_total:
  assumes "k < batch_count bs n"
  shows "(n - 1) div bs + 1 = batch_count bs n"
  using assms by (auto simp: batch_count_def split: if_splits)

lemma upt_3: "[0..<3] = [0, 1, 2::nat]"
  by (simp add: upt_rec)

text \<open>
  C6: for a positive batch size the driver hands the batch processor contiguous slices of
  the input, in order, which do not overlap and together are the whole input: batch \<open>k\<close>
  is the rows from \<open>k * bs\<close> up to \<open>k * bs + bs\<close>; every batch is non-empty and only the
  last may be shorter than the batch size; one progress message is logged per batch,
  counting the batches from 1 to their total.  With the configured size 1000 and 2500 rows
  there are three batches, of 1000, 1000 and 500 rows, and three progress messages.
\<close>

theorem batch_driver_partitions:
  assumes "0 < bs"
  shows "\<exists>results batches logged.
     run_batches process bs df = Inr (results, batches, logged) \<and>
     concat batches = df \<and>
     (\<forall>k < length batches. batches ! k = take bs (drop (k * bs) df)) \<and>
     (\<forall>k < length batches. 0 < length (batches ! k) \<and> length (batches ! k) \<le> bs) \<and>
     (\<forall>k. Suc k < length batches \<longrightarrow> length (batches ! k) = bs) \<and>
     results = concat (map process batches) \<and>
     length logged = length batches \<and>
     (\<forall>k < length logged. logged ! k = (k + 1, length batches)) \<and>
     (bs = BATCH_SIZE \<and> length df = 2500 \<longrightarrow>
        map length batches = [1000, 1000, 500] \<and> length logged = 3)"
proof -
  define c where "c = batch_count bs (length df)"
  define B where "B = map (\<lambda>k. take bs (drop (k * bs) df)) [0..<c]"
  define L where "L = map (\<lambda>k. (k + 1, (length df - 1) div bs + 1)) [0..<c]"
  have lenB: "length B = c" and lenL: "length L = c"
    by (simp_all add: B_def L_def)
  have run: "run_batches process bs df = Inr (concat (map process B), B, L)"
    unfolding B_def L_def c_def using assms by (rule run_batches_closed)
  have "length df \<le> c * bs"
    unfolding c_def using assms by (rule batch_count_covers)
  then have cat: "concat B = df"
    unfolding B_def by (simp add: concat_slices)
  have nth: "\<forall>k < length B. B ! k = take bs (drop (k * bs) df)"
    by (simp add: B_def)
  have len: "\<forall>k < length B. 0 < length (B ! k) \<and> length (B ! k) \<le> bs"
  proof (intro allI impI)
    fix k assume "k < length B"
    then have k: "k < batch_count bs (length df)" by (simp add: lenB c_def)
    then have "B ! k = take bs (drop (k * bs) df)" by (simp add: B_def c_def)
    with slice_length [OF assms k]
    show "0 < length (B ! k) \<and> length (B ! k) \<le> bs" by simp
  qed
  have full: "\<forall>k. Suc k < length B \<longrightarrow> length (B ! k) = bs"
  proof (intro allI impI)
    fix k assume "Suc k < length B"
    then have k: "Suc k < batch_count bs (length df)" by (simp add: lenB c_def)
    then have "B ! k = take bs (drop (k * bs) df)" by (simp add: B_def c_def)
    with slice_full [OF assms k]
    show "length (B ! k) = bs" by simp
  qed
  have total: "\<forall>k < length L. L ! k = (k + 1, length B)"
  proof (intro allI impI)
    fix k assume "k < length L"
    then have k: "k < batch_count bs (length df)" by (simp add: lenL c_def)
    from logged_total [OF k] have "(length df - 1) div bs + 1 = c" by (simp add: c_def)
    moreover have "L ! k = (k + 1, (length df - 1) div bs + 1)"
      using k by (simp add: L_def c_def)
    ultimately show "L ! k = (k + 1, length B)" by (simp add: lenB)
  qed
  have ex: "bs = BATCH_SIZE \<and> length df = 2500 \<longrightarrow>
        map length B = [1000, 1000, 500] \<and> length L = 3"
  proof
    assume "bs = BATCH_SIZE \<and> length df = 2500"
    then have a: "bs = 1000 \<and> length df = 2500" by (simp add: BATCH_SIZE_def)
    then have c3: "c = 3" by (simp add: c_def batch_count_2500)
    from a have "map length (map (\<lambda>k. take 1000 (drop (k * 1000) df)) [0, 1, 2::nat])
        = [1000, 1000, 500]"
      by (intro slices_2500) simp
    then have "map length B = [1000, 1000, 500]"
      unfolding B_def c3 upt_3 using a by simp
    then show "map length B = [1000, 1000, 500] \<and> length L = 3"
      by (simp add: lenL c3)
  qed
  have ll: "length L = length B" by (simp add: lenB lenL)
  have res: "concat (map process B) = concat (map process B)" ..
  show ?thesis
    apply (rule exI [of _ "concat (map process B)"])
    apply (rule exI [of _ B])
    apply (rule exI [of _ L])
    apply (intro conjI)
            apply (rule run)
           apply (rule cat)
          apply (rule nth)
         apply (rule len)
        apply (rule full)
       apply (rule res)
      apply (rule ll)
     apply (rule total)
    apply (rule ex)
    done
qed

theorem batch_driver_partitions_witness:
  "(0::nat) < 1000 \<and> 1000 = BATCH_SIZE \<and> length (replicate 2500 (7::nat)) = 2500 \<and>
   (\<exists>results batches logged.
      run_batches (map (\<lambda>n. PyInt (int n))) 1000 (replicate 2500 (7::nat))
        = Inr (results, batches, logged) \<and>
      concat batches = replicate 2500 7 \<and>
      map length batches = [1000, 1000, 500] \<and>
      batches ! 0 = replicate 1000 7 \<and> batches ! 1 = replicate 1000 7 \<and>
      batches ! 2 = replicate 500 7 \<and>
      length logged = 3 \<and>
      logged ! 0 = (1, 3) \<and> logged ! 1 = (2, 3) \<and> logged ! 2 = (3, 3))"
proof -
  have pos: "(0::nat) < 1000" by simp
  obtain results batches logged where
    run: "run_batches (map (\<lambda>n. PyInt (int n))) 1000 (replicate 2500 (7::nat))
            = Inr (results, batches, logged)"
    and cat: "concat batches = replicate 2500 7"
    and nth: "\<forall>k < length batches. batches ! k = take 1000 (drop (k * 1000) (replicate 2500 7))"
    and ll: "length logged = length batches"
    and total: "\<forall>k < length logged. logged ! k = (k + 1, length batches)"
    and ex: "1000 = BATCH_SIZE \<and> length (replicate 2500 (7::nat)) = 2500 \<longrightarrow>
        map length batches = [1000, 1000, 500] \<and> length logged = 3"
    using batch_driver_partitions
      [OF pos, of "map (\<lambda>n. PyInt (int n))" "replicate 2500 (7::nat)"]
    by (elim exE conjE) (rule that)
  from ex have sizes: "map length batches = [1000, 1000, 500]" and l3: "length logged = 3"
    by (simp_all add: BATCH_SIZE_def)
  from l3 ll have b3: "length batches = 3" by simp
  from nth b3 have "batches ! 0 = replicate 1000 7" "batches ! 1 = replicate 1000 7"
    "batches ! 2 = replicate 500 7"
    by simp_all
  moreover from total l3 b3 have "logged ! 0 = (1, 3)" "logged ! 1 = (2, 3)" "logged ! 2 = (3, 3)"
    by simp_all
  ultimately show ?thesis
    using run cat sizes l3 by (simp add: BATCH_SIZE_def)
qed

text \<open>
  Since a batch function treats each row on its own, \<open>process_all_data\<close> returns the
  records of all rows in the order of the frames, whatever the batch size.
\<close>

lemma process_all_data_results:
  assumes "0 < bs"
  shows "\<exists>gps_logged taxi_logged.
     process_all_data llm_gps llm_taxi loads now str_float has_id bs gps_df taxi_df =
       Inr ((map (gps_step llm_gps loads now str_float has_id) gps_df,
             map (taxi_step llm_taxi loads now) taxi_df), gps_logged, taxi_logged) \<and>
     length gps_logged = batch_count bs (length gps_df) \<and>
     length taxi_logged = batch_count bs (length taxi_df)"
proof -
  have cover: "\<And>n. n \<le> batch_count bs n * bs"
    using assms by (rule batch_count_covers)
  have g: "concat (map (process_gps_batch llm_gps loads now str_float has_id)
              (map (\<lambda>k. take bs (drop (k * bs) gps_df)) [0..<batch_count bs (length gps_df)]))
           = map (gps_step llm_gps loads now str_float has_id) gps_df"
  proof -
    have "concat (map (process_gps_batch llm_gps loads now str_float has_id)
              (map (\<lambda>k. take bs (drop (k * bs) gps_df)) [0..<batch_count bs (length gps_df)]))
        = map (gps_step llm_gps loads now str_float has_id)
            (concat (map (\<lambda>k. take bs (drop (k * bs) gps_df))
                       [0..<batch_count bs (length gps_df)]))"
      by (simp add: map_concat o_def process_gps_batch_map)
    then show ?thesis using cover [of "length gps_df"] by (simp add: concat_slices)
  qed
  have t: "concat (map (process_taxi_batch llm_taxi loads now)
              (map (\<lambda>k. take bs (drop (k * bs) taxi_df)) [0..<batch_count bs (length taxi_df)]))
           = map (taxi_step llm_taxi loads now) taxi_df"
  proof -
    have "concat (map (process_taxi_batch llm_taxi loads now)
              (map (\<lambda>k. take bs (drop (k * bs) taxi_df)) [0..<batch_count bs (length taxi_df)]))
        = map (taxi_step llm_taxi loads now)
            (concat (map (\<lambda>k. take bs (drop (k * bs) taxi_df))
                       [0..<batch_count bs (length taxi_df)]))"
      by (simp add: map_concat o_def process_taxi_batch_map)
    then show ?thesis using cover [of "length taxi_df"] by (simp add: concat_slices)
  qed
  show ?thesis
    unfolding process_all_data_def run_batches_closed [OF assms] g t
    by simp
qed

end
